theory Spec2Isabelle
  imports Complex_Main
begin

section \<open>Strings\<close>

text \<open>
  A JavaScript string is a sequence of UTF-16 code units. The model uses HOL strings, so
  it covers the strings whose code units are below 256; \<open>length\<close> counts code units.
\<close>

text \<open>\<^verbatim>\<open>const NO_KEY = "NO-KEY";\<close>\<close>

definition NO_KEY :: string where
  "NO_KEY = ''NO-KEY''"

text \<open>
  The white space and line terminators that \<^verbatim>\<open>String.prototype.trim\<close> strips, among the
  code units below 256: TAB, LF, VT, FF, CR, SP and NBSP.
\<close>

definition isWhiteSpace :: "char \<Rightarrow> bool" where
  "isWhiteSpace c \<longleftrightarrow>
     c = CHR 0x09 \<or> c = CHR 0x0A \<or> c = CHR 0x0B \<or> c = CHR 0x0C \<or> c = CHR 0x0D \<or>
     c = CHR 0x20 \<or> c = CHR 0xA0"

text \<open>\<^verbatim>\<open>s.trim()\<close>\<close>

definition js_trim :: "string \<Rightarrow> string" where
  "js_trim s = rev (dropWhile isWhiteSpace (rev (dropWhile isWhiteSpace s)))"

text \<open>
  \<^verbatim>\<open>s.split(",")\<close> with a one-character separator: the pieces between the separators, in
  order; the empty string gives one empty piece.
\<close>

fun js_split :: "char \<Rightarrow> string \<Rightarrow> string list" where
  "js_split sep [] = [[]]"
| "js_split sep (c # cs) =
     (if c = sep then [] # js_split sep cs
      else (case js_split sep cs of
              [] \<Rightarrow> [[c]]
            | w # ws \<Rightarrow> (c # w) # ws))"

text \<open>\<^verbatim>\<open>s.indexOf(c)\<close> for a one-character pattern: the first position, or -1.\<close>

fun js_indexOf :: "char \<Rightarrow> string \<Rightarrow> int" where
  "js_indexOf c [] = -1"
| "js_indexOf c (x # xs) =
     (if x = c then 0
      else (let i = js_indexOf c xs in if i = -1 then -1 else i + 1))"

text \<open>
  \<^verbatim>\<open>s.slice(start, end)\<close> of a string or an array: a negative index counts from the end,
  both indices are clamped into \<open>[0, length]\<close>, and the result is empty when
  \<open>end \<le> start\<close>.
\<close>

definition js_slice :: "'a list \<Rightarrow> int \<Rightarrow> int \<Rightarrow> 'a list" where
  "js_slice s start end =
     (let len = int (length s);
          from = (if start < 0 then max (len + start) 0 else min start len);
          to = (if end < 0 then max (len + end) 0 else min end len)
      in take (nat (to - from)) (drop (nat from) s))"

text \<open>\<^verbatim>\<open>s.replace(/[:.]/g, "-")\<close>\<close>

definition replaceColonDot :: "string \<Rightarrow> string" where
  "replaceColonDot s = map (\<lambda>c. if c = CHR '':'' \<or> c = CHR ''.'' then CHR ''-'' else c) s"

section \<open>Key codec\<close>

text \<open>\<^verbatim>\<open>function makeStorageKey(apiKey, id) { return `${apiKey}:${id}`; }\<close>\<close>

definition makeStorageKey :: "string \<Rightarrow> string \<Rightarrow> string" where
  "makeStorageKey apiKey ident = apiKey @ '':'' @ ident"

text \<open>
  \<^verbatim>\<open>generateEventId\<close> reads the clock and the random generator. Both readings are
  arguments here: \<open>stamp\<close> is the value of \<^verbatim>\<open>new Date().toISOString()\<close> and \<open>rnd\<close> is the value
  of \<^verbatim>\<open>Math.random().toString(36)\<close>.
  \<^verbatim>\<open>
  const now = new Date().toISOString().replace(/[:.]/g, "-");
  const rand = Math.random().toString(36).slice(2, 10);
  return `${now}_${rand}`;
  \<close>
\<close>

definition generateEventId :: "string \<Rightarrow> string \<Rightarrow> string" where
  "generateEventId stamp rnd =
     (let now = replaceColonDot stamp;
          rand = js_slice rnd 2 10
      in now @ ''_'' @ rand)"

text \<open>
  The digits of radix 36, as \<^verbatim>\<open>Number.prototype.toString(36)\<close> writes them: \<open>0-9\<close> and
  \<open>a-z\<close>.
\<close>

definition base36Digits :: string where
  "base36Digits = ''0123456789abcdefghijklmnopqrstuvwxyz''"

definition isBase36Digit :: "char \<Rightarrow> bool" where
  "isBase36Digit c \<longleftrightarrow> c \<in> set base36Digits"

text \<open>
  What \<^verbatim>\<open>Math.random().toString(36)\<close> can be. \<^verbatim>\<open>Math.random()\<close> is a number in \<open>[0, 1)\<close>,
  so its radix-36 rendering is \<^verbatim>\<open>"0"\<close> or \<^verbatim>\<open>"0."\<close> followed by at least one digit of
  radix 36.
\<close>

definition isRandomRendering :: "string \<Rightarrow> bool" where
  "isRandomRendering rnd \<longleftrightarrow>
     rnd = ''0'' \<or>
     (take 2 rnd = ''0.'' \<and> drop 2 rnd \<noteq> [] \<and> list_all isBase36Digit (drop 2 rnd))"

text \<open>
  The scanner's prefix extraction (\<^verbatim>\<open>handleListDistinctKeys\<close>):
  \<^verbatim>\<open>
  const idx = name.indexOf(":");
  const prefix = idx === -1 ? name : name.slice(0, idx);
  \<close>
\<close>

definition keyPrefix :: "string \<Rightarrow> string" where
  "keyPrefix name =
     (let idx = js_indexOf (CHR '':'') name
      in if idx = -1 then name else js_slice name 0 idx)"

definition isAlphaNumeric :: "char \<Rightarrow> bool" where
  "isAlphaNumeric c \<longleftrightarrow>
     c \<in> set ''0123456789abcdefghijklmnopqrstuvwxyzABCDEFGHIJKLMNOPQRSTUVWXYZ''"

section \<open>Numbers\<close>

text \<open>
  A JavaScript number is a double. \<open>Fin x\<close> is a finite number of real value \<open>x\<close>; the
  two zeros are both \<open>Fin 0\<close>, which is enough here: they are equally falsy and never
  reach \<^verbatim>\<open>Math.min\<close> or \<^verbatim>\<open>Math.max\<close>. Comparisons, \<^verbatim>\<open>Math.min\<close> and \<^verbatim>\<open>Math.max\<close> are exact
  on doubles, so they are the operations on the real values.
\<close>

datatype jsnum = NaN | NegInf | Fin real | PosInf

text \<open>Truthiness of a number: \<^verbatim>\<open>NaN\<close> and zero are falsy.\<close>

fun js_truthy :: "jsnum \<Rightarrow> bool" where
  "js_truthy NaN = False"
| "js_truthy (Fin x) = (x \<noteq> 0)"
| "js_truthy NegInf = True"
| "js_truthy PosInf = True"

text \<open>\<^verbatim>\<open>a || b\<close> on numbers\<close>

definition js_or :: "jsnum \<Rightarrow> jsnum \<Rightarrow> jsnum" where
  "js_or a b = (if js_truthy a then a else b)"

text \<open>\<^verbatim>\<open>Math.max(a, b)\<close> and \<^verbatim>\<open>Math.min(a, b)\<close>: \<^verbatim>\<open>NaN\<close> if either argument is.\<close>

fun Math_max :: "jsnum \<Rightarrow> jsnum \<Rightarrow> jsnum" where
  "Math_max NaN b = NaN"
| "Math_max a NaN = NaN"
| "Math_max PosInf b = PosInf"
| "Math_max a PosInf = PosInf"
| "Math_max NegInf b = b"
| "Math_max a NegInf = a"
| "Math_max (Fin x) (Fin y) = Fin (max x y)"

fun Math_min :: "jsnum \<Rightarrow> jsnum \<Rightarrow> jsnum" where
  "Math_min NaN b = NaN"
| "Math_min a NaN = NaN"
| "Math_min NegInf b = NegInf"
| "Math_min a NegInf = NegInf"
| "Math_min PosInf b = b"
| "Math_min a PosInf = a"
| "Math_min (Fin x) (Fin y) = Fin (min x y)"

text \<open>\<^verbatim>\<open>a <= b\<close> on numbers: false when either side is \<^verbatim>\<open>NaN\<close>.\<close>

fun js_le :: "jsnum \<Rightarrow> jsnum \<Rightarrow> bool" where
  "js_le NaN b = False"
| "js_le a NaN = False"
| "js_le NegInf b = True"
| "js_le a PosInf = True"
| "js_le PosInf b = False"
| "js_le a NegInf = False"
| "js_le (Fin x) (Fin y) = (x \<le> y)"

section \<open>JSON values\<close>

text \<open>
  A value as \<^verbatim>\<open>JSON.parse\<close> returns it. An object is the list of its own properties in the
  order of \<^verbatim>\<open>Object.keys\<close>; the names of a parsed object are distinct, and a lookup
  \<^verbatim>\<open>obj[key]\<close> is \<open>map_of\<close>.
\<close>

datatype json =
    JNull
  | JBool bool
  | JNum real
  | JStr string
  | JArr "json list"
  | JObj "(string \<times> json) list"

text \<open>
  \<^verbatim>\<open>obj[key]\<close> for a property name that is neither an array index nor inherited
  (\<^verbatim>\<open>"key"\<close>, \<^verbatim>\<open>"ids"\<close> and the names of \<^verbatim>\<open>Object.keys\<close>): \<open>None\<close> is \<^verbatim>\<open>undefined\<close>.
\<close>

fun getProp :: "json \<Rightarrow> string \<Rightarrow> json option" where
  "getProp (JObj kvs) name = map_of kvs name"
| "getProp v name = None"

text \<open>\<^verbatim>\<open>typeof value === "object" && value !== null\<close>, for a value that may be \<^verbatim>\<open>undefined\<close>.\<close>

fun isObject :: "json option \<Rightarrow> bool" where
  "isObject (Some (JObj kvs)) = True"
| "isObject (Some (JArr xs)) = True"
| "isObject v = False"

section \<open>The platform\<close>

text \<open>
  The functions of the JavaScript platform that the worker calls and that are not defined
  here. Every result below holds for whatever these functions are, unless a hypothesis
  says otherwise.
  \<^item> \<open>Number\<close>: \<^verbatim>\<open>Number(s)\<close> for a string \<open>s\<close>;
  \<^item> \<open>btoa\<close>: base64 encoding;
  \<^item> \<open>numberToString\<close>: \<^verbatim>\<open>String(x)\<close> for a finite number \<open>x\<close>;
  \<^item> \<open>localeCompare\<close>: \<^verbatim>\<open>a.localeCompare(b)\<close>.
\<close>

record platform =
  Number :: "string \<Rightarrow> jsnum"
  btoa :: "string \<Rightarrow> string"
  numberToString :: "real \<Rightarrow> string"
  localeCompare :: "string \<Rightarrow> string \<Rightarrow> int"

text \<open>
  \<^verbatim>\<open>Number(v)\<close> for \<^verbatim>\<open>v: string | null\<close>, as \<^verbatim>\<open>URLSearchParams.get\<close> returns it:
  \<^verbatim>\<open>Number(null)\<close> is 0.
\<close>

definition NumberOf :: "platform \<Rightarrow> string option \<Rightarrow> jsnum" where
  "NumberOf pf v = (case v of None \<Rightarrow> Fin 0 | Some s \<Rightarrow> Number pf s)"

section \<open>Environment, requests and responses\<close>

text \<open>
  \<^verbatim>\<open>
  export interface Env {
    WEBHOOKS: KVNamespace;
    ALLOWED_API_KEYS?: string;
    RETENTION_DAYS?: string;
    PANEL_USER?: string;
    PANEL_PASS?: string;
    APP_NAME?: string;
  }
  \<close>
  The store \<^verbatim>\<open>WEBHOOKS\<close> is modelled apart, below.
\<close>

record env =
  ALLOWED_API_KEYS :: "string option"
  RETENTION_DAYS :: "string option"
  PANEL_USER :: "string option"
  PANEL_PASS :: "string option"
  APP_NAME :: "string option"

text \<open>
  What the handlers read from a request. Each field is the value of the call named:
  \<open>None\<close> is \<^verbatim>\<open>null\<close>, and \<open>req_json = None\<close> says that \<^verbatim>\<open>request.json()\<close> throws.
\<close>

record request =
  header_key :: "string option"            \<comment> \<open>\<^verbatim>\<open>request.headers.get("key")\<close>\<close>
  header_x_api_key :: "string option"      \<comment> \<open>\<^verbatim>\<open>request.headers.get("x-api-key")\<close>\<close>
  header_authorization :: "string option"  \<comment> \<open>\<^verbatim>\<open>request.headers.get("authorization")\<close>\<close>
  query_api_key :: "string option"         \<comment> \<open>\<^verbatim>\<open>url.searchParams.get("api_key")\<close>\<close>
  query_key :: "string option"             \<comment> \<open>\<^verbatim>\<open>url.searchParams.get("key")\<close>\<close>
  query_limit :: "string option"           \<comment> \<open>\<^verbatim>\<open>url.searchParams.get("limit")\<close>\<close>
  query_cursor :: "string option"          \<comment> \<open>\<^verbatim>\<open>url.searchParams.get("cursor")\<close>\<close>
  req_json :: "json option"                \<comment> \<open>\<^verbatim>\<open>await request.json()\<close>\<close>

text \<open>
  A response: its status and the value that \<^verbatim>\<open>JSON.stringify\<close> writes into its body. The
  headers are left out.
\<close>

record response =
  status :: nat
  body :: json

definition errorResponse :: "nat \<Rightarrow> string \<Rightarrow> response" where
  "errorResponse code message = \<lparr>status = code, body = JObj [(''error'', JStr message)]\<rparr>"


section \<open>The event store\<close>

text \<open>
  The writes that a handler issues on \<^verbatim>\<open>env.WEBHOOKS\<close>, in the order of issue:
  \<^verbatim>\<open>put(key, value, {expirationTtl, metadata})\<close> and \<^verbatim>\<open>delete(key)\<close>. The value of a put is
  the JSON value whose text \<^verbatim>\<open>JSON.stringify\<close> is stored.
\<close>

datatype kv_op =
    Put string json "int option" json
  | Delete string

text \<open>
  The contents of the store: under each key the value, the time to live and the metadata
  of the last put. A put is an unconditional upsert; a delete removes the key if it is
  there. Expiry and failures of the store are not modelled.
\<close>

type_synonym kv_store = "string \<rightharpoonup> json \<times> int option \<times> json"

fun kv_apply :: "kv_op \<Rightarrow> kv_store \<Rightarrow> kv_store" where
  "kv_apply (Put k v ttl meta) store = store(k \<mapsto> (v, ttl, meta))"
| "kv_apply (Delete k) store = store(k := None)"

definition kv_run :: "kv_op list \<Rightarrow> kv_store \<Rightarrow> kv_store" where
  "kv_run ops store = fold kv_apply ops store"

text \<open>
  The read side of the store, as the handlers see it. \<open>kv_list\<close> is
  \<^verbatim>\<open>env.WEBHOOKS.list({prefix, cursor, limit})\<close> and \<open>kv_get\<close> is
  \<^verbatim>\<open>env.WEBHOOKS.get(name, "json")\<close>, which is \<^verbatim>\<open>null\<close> for a key that is not there. A
  listed key whose \<open>kv_get\<close> is \<open>JNull\<close> is a key that vanished between the two calls.
  Of a listed key only its \<^verbatim>\<open>name\<close> is read, so a page lists names. \<open>lr_list_complete = None\<close>
  is a page without the field \<^verbatim>\<open>list_complete\<close>.
\<close>

record list_options =
  lo_prefix :: "string option"
  lo_cursor :: "string option"
  lo_limit :: jsnum

record list_result =
  lr_keys :: "string list"
  lr_list_complete :: "bool option"
  lr_cursor :: "string option"

record kv_reader =
  kv_list :: "list_options \<Rightarrow> list_result"
  kv_get :: "string \<Rightarrow> json"

section \<open>Namespace gate\<close>

text \<open>
  \<^verbatim>\<open>
  function readApiKey(request: Request): string | null {
    const fromKeyHeader = request.headers.get("key");
    if (fromKeyHeader) return fromKeyHeader;
    const fromQueryLegacy = url.searchParams.get("api_key");
    if (fromQueryLegacy) return fromQueryLegacy;
    const fromHeaderLegacy = request.headers.get("x-api-key");
    if (fromHeaderLegacy) return fromHeaderLegacy;
    return null;
  }
  \<close>
  A string is truthy when it is not empty.
\<close>

fun truthyString :: "string option \<Rightarrow> bool" where
  "truthyString None = False"
| "truthyString (Some s) = (s \<noteq> [])"

definition readApiKey :: "request \<Rightarrow> string option" where
  "readApiKey request =
     (let fromKeyHeader = header_key request in
      if truthyString fromKeyHeader then fromKeyHeader
      else let fromQueryLegacy = query_api_key request in
      if truthyString fromQueryLegacy then fromQueryLegacy
      else let fromHeaderLegacy = header_x_api_key request in
      if truthyString fromHeaderLegacy then fromHeaderLegacy
      else None)"

text \<open>
  \<^verbatim>\<open>
  function toEffectiveKey(maybe: string | null): string {
    const trimmed = (maybe ?? "").trim();
    return trimmed.length > 0 ? trimmed : NO_KEY;
  }
  \<close>
\<close>

definition toEffectiveKey :: "string option \<Rightarrow> string" where
  "toEffectiveKey maybe =
     (let trimmed = js_trim (case maybe of None \<Rightarrow> [] | Some s \<Rightarrow> s)
      in if length trimmed > 0 then trimmed else NO_KEY)"

text \<open>
  \<^verbatim>\<open>
  const allowlistRaw = env.ALLOWED_API_KEYS ?? "";
  const allowlist = allowlistRaw.split(",").map((s) => s.trim()).filter((s) => s.length > 0);
  \<close>
\<close>

definition allowlist :: "env \<Rightarrow> string list" where
  "allowlist e =
     (let allowlistRaw = (case ALLOWED_API_KEYS e of None \<Rightarrow> [] | Some s \<Rightarrow> s)
      in filter (\<lambda>s. length s > 0) (map js_trim (js_split (CHR '','') allowlistRaw)))"

text \<open>
  \<^verbatim>\<open>
  if (allowlist.length === 0) return true; // Open if no allowlist configured
  return allowlist.includes(apiKey);
  \<close>
\<close>

definition isApiKeyAllowed :: "string \<Rightarrow> env \<Rightarrow> bool" where
  "isApiKeyAllowed apiKey e =
     (if length (allowlist e) = 0 then True else apiKey \<in> set (allowlist e))"

section \<open>Ingestion\<close>

text \<open>
  \<^verbatim>\<open>
  function getRetentionTtlSeconds(env: Env): number | undefined {
    const daysRaw = (env.RETENTION_DAYS ?? "30").trim();
    const days = Number(daysRaw);
    if (!Number.isFinite(days) || days <= 0) return undefined;
    return Math.floor(days * 24 * 60 * 60);
  }
  \<close>
  The product is taken in the reals: the rounding of the three multiplications is not
  modelled.
\<close>

definition getRetentionTtlSeconds :: "platform \<Rightarrow> env \<Rightarrow> int option" where
  "getRetentionTtlSeconds pf e =
     (let daysRaw = js_trim (case RETENTION_DAYS e of None \<Rightarrow> ''30'' | Some s \<Rightarrow> s);
          days = Number pf daysRaw
      in case days of
           Fin d \<Rightarrow> if d \<le> 0 then None else Some \<lfloor>d * 24 * 60 * 60\<rfloor>
         | _ \<Rightarrow> None)"

text \<open>\<^verbatim>\<open>typeof v === "object"\<close>: true of \<^verbatim>\<open>null\<close>, of arrays and of objects.\<close>

fun typeofObject :: "json \<Rightarrow> bool" where
  "typeofObject JNull = True"
| "typeofObject (JArr xs) = True"
| "typeofObject (JObj kvs) = True"
| "typeofObject v = False"

text \<open>\<^verbatim>\<open>Array.isArray(v)\<close>\<close>

fun isArray :: "json \<Rightarrow> bool" where
  "isArray (JArr xs) = True"
| "isArray v = False"

text \<open>\<^verbatim>\<open>Object.keys(obj)\<close> of a parsed object that is not an array.\<close>

fun objectKeys :: "json \<Rightarrow> string list" where
  "objectKeys (JObj kvs) = map fst kvs"
| "objectKeys v = []"

text \<open>
  \<^verbatim>\<open>
  function isFlatKeyValueObject(obj: Record<string, unknown>): boolean {
    const keys = Object.keys(obj);
    for (const key of keys) {
      const value = (obj as Record<string, unknown>)[key];
      const isObject = typeof value === "object" && value !== null;
      if (isObject) return false; // reject nested objects/arrays
    }
    return true;
  }
  \<close>
  \<open>flatLoop\<close> is the \<^verbatim>\<open>for\<close> loop over the keys that remain.
\<close>

fun flatLoop :: "json \<Rightarrow> string list \<Rightarrow> bool" where
  "flatLoop obj [] = True"
| "flatLoop obj (key # keys) =
     (let val = getProp obj key
      in if isObject val then False else flatLoop obj keys)"

definition isFlatKeyValueObject :: "json \<Rightarrow> bool" where
  "isFlatKeyValueObject obj = flatLoop obj (objectKeys obj)"

text \<open>
  \<^verbatim>\<open>handleWebhook\<close>. Besides the request it reads the clock twice and the random generator
  once: \<open>stampId\<close> and \<open>rnd\<close> are the readings inside \<^verbatim>\<open>generateEventId()\<close>, and
  \<open>stampReceived\<close> is the later \<^verbatim>\<open>new Date().toISOString()\<close> of \<^verbatim>\<open>receivedAt\<close>. The result is
  the response and the writes issued on the store.
  \<^verbatim>\<open>
  const apiKey = toEffectiveKey(readApiKey(request));
  if (!isApiKeyAllowed(apiKey, env)) return 403 {error: "Forbidden api_key"};
  let body; try { body = await request.json(); } catch { return 400 {error: "Invalid JSON"}; }
  if (typeof body !== "object" || body === null || Array.isArray(body))
    return 400 {error: "Body must be a flat JSON object of key-value pairs"};
  if (!isFlatKeyValueObject(body))
    return 400 {error: "Body must be flat (no nested objects/arrays); only key-value pairs"};
  const eventRecord = { id: generateEventId(), apiKey, receivedAt: new Date().toISOString(), body };
  const ttlSeconds = getRetentionTtlSeconds(env);
  const storageKey = makeStorageKey(apiKey, eventRecord.id);
  await env.WEBHOOKS.put(storageKey, JSON.stringify(eventRecord),
    { expirationTtl: ttlSeconds, metadata: { apiKey, receivedAt: eventRecord.receivedAt } });
  return 200 { ok: true, id: eventRecord.id };
  \<close>
\<close>

definition msgNotObject :: string where
  "msgNotObject = ''Body must be a flat JSON object of key-value pairs''"

definition msgNestedValue :: string where
  "msgNestedValue = ''Body must be flat (no nested objects/arrays); only key-value pairs''"

definition handleWebhook ::
  "platform \<Rightarrow> env \<Rightarrow> request \<Rightarrow> string \<Rightarrow> string \<Rightarrow> string \<Rightarrow> response \<times> kv_op list" where
  "handleWebhook pf e request stampId rnd stampReceived =
     (let apiKey = toEffectiveKey (readApiKey request) in
      if \<not> isApiKeyAllowed apiKey e then (errorResponse 403 ''Forbidden api_key'', [])
      else case req_json request of
        None \<Rightarrow> (errorResponse 400 ''Invalid JSON'', [])
      | Some payload \<Rightarrow>
          if \<not> typeofObject payload \<or> payload = JNull \<or> isArray payload
          then (errorResponse 400 msgNotObject, [])
          else if \<not> isFlatKeyValueObject payload
          then (errorResponse 400 msgNestedValue, [])
          else
            let ident = generateEventId stampId rnd;
                receivedAt = stampReceived;
                eventRecord = JObj [(''id'', JStr ident), (''apiKey'', JStr apiKey),
                                    (''receivedAt'', JStr receivedAt), (''body'', payload)];
                ttlSeconds = getRetentionTtlSeconds pf e;
                storageKey = makeStorageKey apiKey ident
            in (\<lparr>status = 200, body = JObj [(''ok'', JBool True), (''id'', JStr ident)]\<rparr>,
                [Put storageKey eventRecord ttlSeconds
                   (JObj [(''apiKey'', JStr apiKey), (''receivedAt'', JStr receivedAt)])]))"

section \<open>Listing\<close>

text \<open>
  The limit of \<^verbatim>\<open>handleListEvents\<close>:
  \<^verbatim>\<open>
  const limitParam = url.searchParams.get("limit");
  const limit = Math.min(Math.max(Number(limitParam) || 50, 1), 200);
  \<close>
\<close>

definition requestLimit :: "platform \<Rightarrow> string option \<Rightarrow> jsnum" where
  "requestLimit pf limitParam =
     Math_min (Math_max (js_or (NumberOf pf limitParam) (Fin 50)) (Fin 1)) (Fin 200)"

text \<open>The limit that \<^verbatim>\<open>listEventsForApiKey\<close> passes to the store: \<^verbatim>\<open>Math.min(1000, limit)\<close>.\<close>

definition storeLimit :: "jsnum \<Rightarrow> jsnum" where
  "storeLimit limit = Math_min (Fin 1000) limit"

record event_page =
  ep_events :: "json list"
  ep_cursor :: "string option"
  ep_listComplete :: bool

text \<open>
  \<^verbatim>\<open>
  const prefix = `${apiKey}:`;
  const page = await env.WEBHOOKS.list({ prefix, cursor, limit: Math.min(1000, limit) });
  const results = await Promise.all(page.keys.map(async (k) => {
      const data = await env.WEBHOOKS.get(k.name, "json");
      return data as EventRecord | null; }));
  const events = results.filter((r): r is EventRecord => r !== null);
  return {
    events,
    cursor: ("list_complete" in page && page.list_complete === false) ? page.cursor : undefined,
    listComplete: ("list_complete" in page) ? page.list_complete : true,
  };
  \<close>
  \<^verbatim>\<open>Promise.all\<close> keeps the order of \<^verbatim>\<open>page.keys\<close>.
\<close>

definition listPage :: "kv_reader \<Rightarrow> string \<Rightarrow> jsnum \<Rightarrow> string option \<Rightarrow> list_result" where
  "listPage kv apiKey limit cursor =
     kv_list kv \<lparr>lo_prefix = Some (apiKey @ '':''), lo_cursor = cursor, lo_limit = storeLimit limit\<rparr>"

definition listEventsForApiKey ::
  "kv_reader \<Rightarrow> string \<Rightarrow> jsnum \<Rightarrow> string option \<Rightarrow> event_page" where
  "listEventsForApiKey kv apiKey limit cursor =
     (let page = listPage kv apiKey limit cursor;
          results = map (kv_get kv) (lr_keys page);
          evs = filter (\<lambda>r. r \<noteq> JNull) results
      in \<lparr>ep_events = evs,
          ep_cursor = (if lr_list_complete page = Some False then lr_cursor page else None),
          ep_listComplete = (case lr_list_complete page of Some b \<Rightarrow> b | None \<Rightarrow> True)\<rparr>)"

text \<open>
  \<^verbatim>\<open>
  const selected = url.searchParams.get("key");
  const apiKey = toEffectiveKey(selected ?? readApiKey(request));
  if (!isApiKeyAllowed(apiKey, env)) return 403 {error: "Forbidden api_key"};
  const limitParam = url.searchParams.get("limit");
  const cursorParam = url.searchParams.get("cursor") || undefined;
  const limit = Math.min(Math.max(Number(limitParam) || 50, 1), 200);
  const { events, cursor, listComplete } = await listEventsForApiKey(env, apiKey, limit, cursorParam);
  return 200 { events, cursor, listComplete };
  \<close>
  \<^verbatim>\<open>JSON.stringify\<close> leaves out a \<^verbatim>\<open>cursor\<close> that is \<^verbatim>\<open>undefined\<close>.
\<close>

definition handleListEvents :: "platform \<Rightarrow> env \<Rightarrow> kv_reader \<Rightarrow> request \<Rightarrow> response" where
  "handleListEvents pf e kv request =
     (let selected = query_key request;
          apiKey = toEffectiveKey (case selected of None \<Rightarrow> readApiKey request | Some s \<Rightarrow> Some s)
      in if \<not> isApiKeyAllowed apiKey e then errorResponse 403 ''Forbidden api_key''
         else
           let limitParam = query_limit request;
               cursorParam = (if truthyString (query_cursor request) then query_cursor request else None);
               limit = requestLimit pf limitParam;
               page = listEventsForApiKey kv apiKey limit cursorParam
           in \<lparr>status = 200,
               body = JObj ([(''events'', JArr (ep_events page))]
                        @ (case ep_cursor page of None \<Rightarrow> [] | Some c \<Rightarrow> [(''cursor'', JStr c)])
                        @ [(''listComplete'', JBool (ep_listComplete page))])\<rparr>)"

section \<open>Namespace scanner\<close>

text \<open>\<^verbatim>\<open>const maxScan = 2000;\<close>\<close>

definition maxScan :: nat where
  "maxScan = 2000"

text \<open>
  \<^verbatim>\<open>distinct.add(prefix)\<close> on a \<^verbatim>\<open>Set<string>\<close>, kept as the list of its members in insertion
  order, which is the order of \<^verbatim>\<open>distinct.values()\<close>.
\<close>

definition setAdd :: "string \<Rightarrow> string list \<Rightarrow> string list" where
  "setAdd x xs = (if x \<in> set xs then xs else xs @ [x])"

text \<open>
  The body of the inner loop, on the pair of \<^verbatim>\<open>scanned\<close> and \<^verbatim>\<open>distinct\<close>:
  \<^verbatim>\<open>
  for (const k of page.keys) {
    scanned++;
    const name = k.name;
    const idx = name.indexOf(":");
    const prefix = idx === -1 ? name : name.slice(0, idx);
    if (prefix && prefix !== NO_KEY) distinct.add(prefix);
  }
  \<close>
\<close>

fun scanKeys :: "string list \<Rightarrow> nat \<times> string list \<Rightarrow> nat \<times> string list" where
  "scanKeys [] (scanned, seen) = (scanned, seen)"
| "scanKeys (name # names) (scanned, seen) =
     (let prefix = keyPrefix name
      in scanKeys names
           (scanned + 1, if prefix \<noteq> [] \<and> prefix \<noteq> NO_KEY then setAdd prefix seen else seen))"

text \<open>\<^verbatim>\<open>await env.WEBHOOKS.list({ cursor, limit: 1000 })\<close>\<close>

definition scanPage :: "kv_reader \<Rightarrow> string option \<Rightarrow> list_result" where
  "scanPage kv cursor = kv_list kv \<lparr>lo_prefix = None, lo_cursor = cursor, lo_limit = Fin 1000\<rparr>"

text \<open>
  The outer loop, from the state \<open>(cursor, scanned, distinct)\<close> at the head of an iteration
  to the pair of \<^verbatim>\<open>scanned\<close> and \<^verbatim>\<open>distinct\<close> at its exit. The loop need not end (a store may
  answer with incomplete pages for ever), so the result is an option: \<open>None\<close> is a loop
  that runs for ever.
  \<^verbatim>\<open>
  while (scanned < maxScan) {
    const page = await env.WEBHOOKS.list({ cursor, limit: 1000 });
    for (const k of page.keys) { ... }
    if (("list_complete" in page) && page.list_complete === false) {
      cursor = page.cursor;
    } else {
      break;
    }
  }
  \<close>
\<close>

partial_function (option) scanLoop ::
  "kv_reader \<Rightarrow> string option \<Rightarrow> nat \<Rightarrow> string list \<Rightarrow> (nat \<times> string list) option" where
  "scanLoop kv cursor scanned seen =
     (if scanned < maxScan then
        (let page = scanPage kv cursor;
             st = scanKeys (lr_keys page) (scanned, seen)
         in if lr_list_complete page = Some False
            then scanLoop kv (lr_cursor page) (fst st) (snd st)
            else Some st)
      else Some (scanned, seen))"

text \<open>
  \<^verbatim>\<open>xs.sort((a, b) => a.localeCompare(b))\<close>. The sort of an array is stable, and with a
  consistent comparator its result is the sorted arrangement that keeps equal elements in
  their order; that is what insertion from the right computes. \<open>x\<close> goes before \<open>y\<close> when
  \<open>cmp x y \<le> 0\<close>.
\<close>

fun insertSorted :: "('a \<Rightarrow> 'a \<Rightarrow> int) \<Rightarrow> 'a \<Rightarrow> 'a list \<Rightarrow> 'a list" where
  "insertSorted cmp x [] = [x]"
| "insertSorted cmp x (y # ys) =
     (if cmp x y \<le> 0 then x # y # ys else y # insertSorted cmp x ys)"

definition js_sort :: "('a \<Rightarrow> 'a \<Rightarrow> int) \<Rightarrow> 'a list \<Rightarrow> 'a list" where
  "js_sort cmp xs = foldr (insertSorted cmp) xs []"

text \<open>
  \<^verbatim>\<open>
  const distinct = new Set<string>();
  let cursor: string | undefined = undefined;
  let scanned = 0;
  while (scanned < maxScan) { ... }
  const keys = Array.from(distinct.values()).sort((a, b) => a.localeCompare(b));
  return 200 { keys };
  \<close>
\<close>

definition handleListDistinctKeys :: "platform \<Rightarrow> kv_reader \<Rightarrow> response option" where
  "handleListDistinctKeys pf kv =
     (case scanLoop kv None 0 [] of
        None \<Rightarrow> None
      | Some (scanned, seen) \<Rightarrow>
          (let keys = js_sort (localeCompare pf) seen
           in Some \<lparr>status = 200, body = JObj [(''keys'', JArr (map JStr keys))]\<rparr>))"

section \<open>Batch delete\<close>



text \<open>\<^verbatim>\<open>xs.join(",")\<close> of an array of strings.\<close>

fun js_join :: "string list \<Rightarrow> string" where
  "js_join [] = []"
| "js_join [x] = x"
| "js_join (x # y # ys) = x @ '','' @ js_join (y # ys)"






section \<open>Vocabulary of the properties\<close>

text \<open>A scalar is a string, a number, a boolean or \<^verbatim>\<open>null\<close>: not an array and not an object.\<close>

fun isScalar :: "json \<Rightarrow> bool" where
  "isScalar (JArr xs) = False"
| "isScalar (JObj kvs) = False"
| "isScalar v = True"

section \<open>Sample inputs\<close>

text \<open>
  Concrete configurations, requests and a platform, on which the results below are
  evaluated. The sample platform gives the value of each platform function at the
  arguments that the samples use: \<^verbatim>\<open>Number("0")\<close>, \<^verbatim>\<open>Number("30")\<close>, \<^verbatim>\<open>Number("500")\<close>,
  \<^verbatim>\<open>Number("abc")\<close>, \<^verbatim>\<open>btoa("admin:secret")\<close>, \<^verbatim>\<open>String(7)\<close>, and \<^verbatim>\<open>localeCompare\<close> on strings
  of lower-case letters, where it is the order of the code units.
\<close>

definition envOpen :: env where
  "envOpen = \<lparr>ALLOWED_API_KEYS = Some '' , '', RETENTION_DAYS = None, PANEL_USER = Some ''admin'',
     PANEL_PASS = Some ''secret'', APP_NAME = None\<rparr>"

definition envDemo :: env where
  "envDemo = \<lparr>ALLOWED_API_KEYS = Some ''demo, other ,'', RETENTION_DAYS = None,
     PANEL_USER = Some ''admin'', PANEL_PASS = Some ''secret'', APP_NAME = None\<rparr>"

fun compareCodeUnits :: "string \<Rightarrow> string \<Rightarrow> int" where
  "compareCodeUnits [] [] = 0"
| "compareCodeUnits [] (y # ys) = -1"
| "compareCodeUnits (x # xs) [] = 1"
| "compareCodeUnits (x # xs) (y # ys) =
     (if (of_char x :: nat) < of_char y then -1
      else if (of_char y :: nat) < of_char x then 1
      else compareCodeUnits xs ys)"

definition samplePlatform :: platform where
  "samplePlatform =
     \<lparr>Number = (\<lambda>s. if s = ''0'' then Fin 0 else if s = ''30'' then Fin 30
                    else if s = ''500'' then Fin 500 else NaN),
      btoa = (\<lambda>s. if s = ''admin:secret'' then ''YWRtaW46c2VjcmV0'' else []),
      numberToString = (\<lambda>x. if x = 7 then ''7'' else []),
      localeCompare = compareCodeUnits\<rparr>"

text \<open>A request with the header \<^verbatim>\<open>key\<close>, the credentials of the samples and a parsed body.\<close>

definition sampleRequest :: "string option \<Rightarrow> json option \<Rightarrow> request" where
  "sampleRequest key payload =
     \<lparr>header_key = key, header_x_api_key = None,
      header_authorization = Some ''Basic YWRtaW46c2VjcmV0'',
      query_api_key = None, query_key = None, query_limit = None, query_cursor = None,
      req_json = payload\<rparr>"

text \<open>
  A store for the samples. Listed under a prefix it answers with two keys of the namespace
  \<open>demo\<close> and says that more remain; the second of them has vanished by the time it is
  read. Listed without a prefix it answers with two pages, the first incomplete.
\<close>

definition sampleStore :: kv_reader where
  "sampleStore =
     \<lparr>kv_list = (\<lambda>opts.
        case lo_prefix opts of
          Some p \<Rightarrow> \<lparr>lr_keys = [''demo:e1'', ''demo:e2''], lr_list_complete = Some False,
                      lr_cursor = Some ''c1''\<rparr>
        | None \<Rightarrow>
            (case lo_cursor opts of
               None \<Rightarrow> \<lparr>lr_keys = [''NO-KEY:e0'', ''a-b:e1'', ''a:e2''],
                          lr_list_complete = Some False, lr_cursor = Some ''c1''\<rparr>
             | Some c \<Rightarrow> \<lparr>lr_keys = [''a:e3'', ''plain'', '':e4''],
                            lr_list_complete = Some True, lr_cursor = None\<rparr>)),
      kv_get = (\<lambda>k. if k = ''demo:e1'' then JObj [(''id'', JStr ''e1'')] else JNull)\<rparr>"



section \<open>Facts about the string operations\<close>

lemma js_indexOf_range: "-1 \<le> js_indexOf c s \<and> js_indexOf c s < int (length s)"
  by (induction s) (auto simp: Let_def)

lemma js_indexOf_absent: "js_indexOf c s = -1 \<longleftrightarrow> c \<notin> set s"
proof (induction s)
  case Nil
  show ?case by simp
next
  case (Cons x xs)
  have "-1 \<le> js_indexOf c xs" using js_indexOf_range [of c xs] by simp
  with Cons show ?case by (auto simp: Let_def)
qed

lemma js_indexOf_takeWhile:
  "c \<in> set s \<Longrightarrow> js_indexOf c s = int (length (takeWhile (\<lambda>x. x \<noteq> c) s))"
proof (induction s)
  case Nil
  then show ?case by simp
next
  case (Cons x xs)
  show ?case
  proof (cases "x = c")
    case True
    then show ?thesis by simp
  next
    case False
    with Cons.prems have mem: "c \<in> set xs" by simp
    then have "js_indexOf c xs \<noteq> -1" by (simp add: js_indexOf_absent)
    with False Cons.IH [OF mem] show ?thesis by (simp add: Let_def)
  qed
qed

lemma js_slice_prefix: "0 \<le> n \<Longrightarrow> js_slice s 0 n = take (nat n) s"
  by (auto simp: js_slice_def Let_def min_def)

lemma js_slice_2_10: "js_slice s 2 10 = take 8 (drop 2 s)"
proof -
  have "take (nat (min 10 (int (length s)) - min 2 (int (length s)))) (drop (nat (min 2 (int (length s)))) s)
        = take 8 (drop 2 s)"
  proof (cases "length s \<le> 2")
    case True
    then show ?thesis by (simp add: min_def)
  next
    case False
    then have two: "min 2 (int (length s)) = 2" by simp
    show ?thesis
    proof (cases "length s \<le> 10")
      case True
      then have "min 10 (int (length s)) = int (length s)" by simp
      with two False True show ?thesis by simp
    next
      case False
      then have "min 10 (int (length s)) = 10" by simp
      with two show ?thesis by simp
    qed
  qed
  then show ?thesis by (simp add: js_slice_def Let_def)
qed

lemma take_length_takeWhile: "take (length (takeWhile P xs)) xs = takeWhile P xs"
  by (induction xs) auto

lemma takeWhile_absent: "c \<notin> set s \<Longrightarrow> takeWhile (\<lambda>x. x \<noteq> c) s = s"
  by (induction s) auto

lemma keyPrefix_takeWhile: "keyPrefix name = takeWhile (\<lambda>x. x \<noteq> CHR '':'') name"
proof (cases "CHR '':'' \<in> set name")
  case True
  then have idx: "js_indexOf (CHR '':'') name = int (length (takeWhile (\<lambda>x. x \<noteq> CHR '':'') name))"
    by (rule js_indexOf_takeWhile)
  then have "js_indexOf (CHR '':'') name \<noteq> -1" by simp
  with idx show ?thesis
    by (simp add: keyPrefix_def Let_def js_slice_prefix take_length_takeWhile)
next
  case False
  then have "js_indexOf (CHR '':'') name = -1" by (simp add: js_indexOf_absent)
  then have "keyPrefix name = name" by (simp add: keyPrefix_def)
  also have "name = takeWhile (\<lambda>x. x \<noteq> CHR '':'') name"
    by (rule takeWhile_absent [OF False, symmetric])
  finally show ?thesis .
qed

lemma replaceColonDot_no_colon: "CHR '':'' \<notin> set (replaceColonDot s)"
  by (auto simp: replaceColonDot_def)

lemma base36_no_colon: "isBase36Digit c \<Longrightarrow> c \<noteq> CHR '':''"
  by (auto simp: isBase36Digit_def base36Digits_def)

lemma random_suffix_digits:
  "isRandomRendering rnd \<Longrightarrow> list_all isBase36Digit (js_slice rnd 2 10)"
  by (auto simp: isRandomRendering_def js_slice_2_10 list_all_iff dest: in_set_takeD)

lemma takeWhile_until: "c \<notin> set ns \<Longrightarrow> takeWhile (\<lambda>x. x \<noteq> c) (ns @ c # rest) = ns"
  by (induction ns) auto

section \<open>Key codec: the properties\<close>

text \<open>
  C8. Every generated event id contains no \<open>:\<close>, whatever the clock reads and for every
  radix-36 rendering of a random number; so for every namespace without a \<open>:\<close>, the part
  of the storage key \<open>namespace + ":" + id\<close> before its first \<open>:\<close>, which is what the
  scanner extracts, is the namespace.
\<close>

theorem storage_key_prefix_roundtrip:
  assumes "isRandomRendering rnd"
  shows "CHR '':'' \<notin> set (generateEventId stamp rnd) \<and>
         (CHR '':'' \<notin> set ns \<longrightarrow>
            keyPrefix (makeStorageKey ns (generateEventId stamp rnd)) = ns)"
proof
  have "list_all isBase36Digit (js_slice rnd 2 10)"
    using assms by (rule random_suffix_digits)
  then have "CHR '':'' \<notin> set (js_slice rnd 2 10)"
    using base36_no_colon by (auto simp: list_all_iff)
  then show "CHR '':'' \<notin> set (generateEventId stamp rnd)"
    using replaceColonDot_no_colon [of stamp] by (simp add: generateEventId_def Let_def)
next
  show "CHR '':'' \<notin> set ns \<longrightarrow>
            keyPrefix (makeStorageKey ns (generateEventId stamp rnd)) = ns"
  proof
    assume "CHR '':'' \<notin> set ns"
    then have "takeWhile (\<lambda>x. x \<noteq> CHR '':'') (ns @ CHR '':'' # generateEventId stamp rnd) = ns"
      by (rule takeWhile_until)
    then show "keyPrefix (makeStorageKey ns (generateEventId stamp rnd)) = ns"
      by (simp add: keyPrefix_takeWhile makeStorageKey_def)
  qed
qed

theorem storage_key_prefix_roundtrip_witness:
  "isRandomRendering ''0.4fzyo82mvyr'' \<and>
   CHR '':'' \<notin> set (generateEventId ''2024-01-02T03:04:05.678Z'' ''0.4fzyo82mvyr'') \<and>
   CHR '':'' \<notin> set ''demo'' \<and>
   keyPrefix (makeStorageKey ''demo'' (generateEventId ''2024-01-02T03:04:05.678Z'' ''0.4fzyo82mvyr''))
     = ''demo''"
proof -
  have h: "isRandomRendering ''0.4fzyo82mvyr''"
    by (simp add: isRandomRendering_def isBase36Digit_def base36Digits_def)
  have c: "CHR '':'' \<notin> set ''demo''" by simp
  from storage_key_prefix_roundtrip [OF h, of "''2024-01-02T03:04:05.678Z''" "''demo''"] h c
  show ?thesis by blast
qed

text \<open>
  C9, as the code has it. A generated event id is the clock reading with every \<open>:\<close> and
  every \<open>.\<close> replaced by \<open>-\<close> and every other character kept, then an underscore, then
  the characters 2 to 9 of the radix-36 rendering of the random number. That suffix has
  at most 8 characters, exactly 8 when the rendering has at least 8 digits after
  \<^verbatim>\<open>0.\<close>, and its characters are among the 36 digits of radix 36.
\<close>

theorem generateEventId_shape:
  "generateEventId stamp rnd =
     map (\<lambda>c. if c = CHR '':'' \<or> c = CHR ''.'' then CHR ''-'' else c) stamp
       @ ''_'' @ take 8 (drop 2 rnd) \<and>
   length (take 8 (drop 2 rnd)) \<le> 8 \<and>
   (10 \<le> length rnd \<longrightarrow> length (take 8 (drop 2 rnd)) = 8) \<and>
   (isRandomRendering rnd \<longrightarrow> list_all isBase36Digit (take 8 (drop 2 rnd))) \<and>
   length base36Digits = 36 \<and> distinct base36Digits"
proof -
  have a: "generateEventId stamp rnd =
     map (\<lambda>c. if c = CHR '':'' \<or> c = CHR ''.'' then CHR ''-'' else c) stamp
       @ ''_'' @ take 8 (drop 2 rnd)"
    by (simp add: generateEventId_def Let_def replaceColonDot_def js_slice_2_10)
  have b: "isRandomRendering rnd \<longrightarrow> list_all isBase36Digit (take 8 (drop 2 rnd))"
    using random_suffix_digits [of rnd] by (simp add: js_slice_2_10)
  have c: "length base36Digits = 36 \<and> distinct base36Digits"
    by (simp add: base36Digits_def)
  from a b c show ?thesis by simp
qed

theorem generateEventId_shape_witness:
  "generateEventId ''2024-01-02T03:04:05.678Z'' ''0.4fzyo82mvyr''
     = ''2024-01-02T03-04-05-678Z_4fzyo82m'' \<and>
   10 \<le> length ''0.4fzyo82mvyr'' \<and> length ''4fzyo82m'' = 8 \<and>
   isRandomRendering ''0.4fzyo82mvyr'' \<and> list_all isBase36Digit ''4fzyo82m''"
proof -
  have h: "isRandomRendering ''0.4fzyo82mvyr''"
    by (simp add: isRandomRendering_def isBase36Digit_def base36Digits_def)
  from generateEventId_shape [of "''2024-01-02T03:04:05.678Z''" "''0.4fzyo82mvyr''"] h
  show ?thesis by simp
qed

text \<open>
  C9, as it is stated, fails. When the random number is one half, its rendering is
  \<^verbatim>\<open>0.i\<close>: the suffix is the single character \<open>i\<close>, not 8 characters. And the hyphens of
  the date are not replaced, so the timestamp part keeps characters that are not
  alphanumeric.
\<close>

theorem generateEventId_counterexample:
  "generateEventId ''2024-01-02T03:04:05.678Z'' ''0.i'' = ''2024-01-02T03-04-05-678Z_i'' \<and>
   isRandomRendering ''0.i'' \<and>
   \<not> list_all isAlphaNumeric ''2024-01-02T03-04-05-678Z'' \<and>
   length ''i'' \<noteq> 8"
  by (simp add: generateEventId_def replaceColonDot_def js_slice_def isRandomRendering_def
      isBase36Digit_def base36Digits_def isAlphaNumeric_def)

section \<open>Namespace gate: the properties\<close>

lemma js_split_nonempty: "js_split c s \<noteq> []"
  by (induction s) (auto split: list.splits)

lemma js_split_no_sep: "p \<in> set (js_split c s) \<Longrightarrow> c \<notin> set p"
proof (induction s arbitrary: p)
  case Nil
  then show ?case by simp
next
  case (Cons x xs)
  then show ?case by (auto split: if_splits list.splits)
qed

lemma js_join_cons: "ws \<noteq> [] \<Longrightarrow> js_join (w # ws) = w @ '','' @ js_join ws"
  by (cases ws) auto

lemma js_join_split: "js_join (js_split (CHR '','') s) = s"
proof (induction s)
  case Nil
  show ?case by simp
next
  case (Cons x xs)
  show ?case
  proof (cases "x = CHR '',''")
    case True
    with Cons show ?thesis by (simp add: js_join_cons js_split_nonempty)
  next
    case False
    obtain w ws where sp: "js_split (CHR '','') xs = w # ws"
      using js_split_nonempty [of "CHR '',''" xs] by (cases "js_split (CHR '','') xs") auto
    have "js_join ((x # w) # ws) = x # js_join (w # ws)"
      by (cases ws) auto
    with False sp Cons show ?thesis by simp
  qed
qed

lemma js_trim_ends:
  "js_trim s = [] \<or> (\<not> isWhiteSpace (hd (js_trim s)) \<and> \<not> isWhiteSpace (last (js_trim s)))"
proof (cases "js_trim s = []")
  case True
  then show ?thesis by simp
next
  case False
  let ?a = "dropWhile isWhiteSpace s"
  let ?b = "dropWhile isWhiteSpace (rev ?a)"
  from False have b: "?b \<noteq> []" by (simp add: js_trim_def)
  then have hb: "\<not> isWhiteSpace (hd ?b)" by (rule hd_dropWhile)
  have a: "?a \<noteq> []"
  proof
    assume "?a = []"
    then have "?b = []" by (simp only: rev.simps(1) dropWhile.simps(1))
    with b show False by contradiction
  qed
  then have ha: "\<not> isWhiteSpace (hd ?a)" by (rule hd_dropWhile)
  have "last (js_trim s) = hd ?b" using b by (simp add: js_trim_def last_rev)
  moreover have "hd (js_trim s) = last ?b" using b by (simp add: js_trim_def hd_rev)
  moreover have "last ?b = last (rev ?a)"
  proof -
    have "rev ?a = takeWhile isWhiteSpace (rev ?a) @ ?b" by simp
    then show ?thesis using b by (metis last_appendR)
  qed
  moreover have "last (rev ?a) = hd ?a" using a by (simp add: last_rev)
  ultimately show ?thesis using ha hb by simp
qed

lemma allowlist_member:
  "ns \<in> set (allowlist e) \<longleftrightarrow>
     ns \<noteq> [] \<and>
     (\<exists>p \<in> set (js_split (CHR '','') (case ALLOWED_API_KEYS e of None \<Rightarrow> [] | Some s \<Rightarrow> s)).
        js_trim p = ns)"
  by (auto simp: allowlist_def Let_def)

text \<open>
  C6. The allowlist is the list of the comma-separated pieces of the configured string,
  each trimmed, without the empty ones. When it is empty the gate lets every namespace
  pass; otherwise it lets a namespace pass exactly when the namespace is a member, by
  equality of strings. When the gate rejects the namespace of a write, the write answers
  403 \<^verbatim>\<open>Forbidden api_key\<close> and issues nothing on the store, which stays as it was.
\<close>

theorem namespace_gate:
  "(allowlist e = [] \<longrightarrow> isApiKeyAllowed ns e) \<and>
   (allowlist e \<noteq> [] \<longrightarrow> (isApiKeyAllowed ns e \<longleftrightarrow> ns \<in> set (allowlist e))) \<and>
   (ns \<in> set (allowlist e) \<longleftrightarrow>
      ns \<noteq> [] \<and>
      (\<exists>p \<in> set (js_split (CHR '','') (case ALLOWED_API_KEYS e of None \<Rightarrow> [] | Some s \<Rightarrow> s)).
         js_trim p = ns)) \<and>
   js_join (js_split (CHR '','') (case ALLOWED_API_KEYS e of None \<Rightarrow> [] | Some s \<Rightarrow> s))
     = (case ALLOWED_API_KEYS e of None \<Rightarrow> [] | Some s \<Rightarrow> s) \<and>
   (\<not> isApiKeyAllowed (toEffectiveKey (readApiKey request)) e \<longrightarrow>
      handleWebhook pf e request stampId rnd stampReceived
        = (errorResponse 403 ''Forbidden api_key'', []) \<and>
      kv_run (snd (handleWebhook pf e request stampId rnd stampReceived)) store = store)"
proof -
  have a: "allowlist e = [] \<longrightarrow> isApiKeyAllowed ns e"
    by (simp add: isApiKeyAllowed_def)
  have b: "allowlist e \<noteq> [] \<longrightarrow> (isApiKeyAllowed ns e \<longleftrightarrow> ns \<in> set (allowlist e))"
    by (simp add: isApiKeyAllowed_def)
  have d: "\<not> isApiKeyAllowed (toEffectiveKey (readApiKey request)) e \<longrightarrow>
      handleWebhook pf e request stampId rnd stampReceived
        = (errorResponse 403 ''Forbidden api_key'', []) \<and>
      kv_run (snd (handleWebhook pf e request stampId rnd stampReceived)) store = store"
    by (simp add: handleWebhook_def Let_def kv_run_def)
  from a b d allowlist_member [of ns e] js_join_split show ?thesis by blast
qed


lemma allowlist_envDemo: "allowlist envDemo = [''demo'', ''other'']"
  by (simp add: allowlist_def envDemo_def js_trim_def isWhiteSpace_def)

lemma allowlist_envOpen: "allowlist envOpen = []"
  by (simp add: allowlist_def envOpen_def js_trim_def isWhiteSpace_def)

lemma key_of_sampleRequest:
  "toEffectiveKey (readApiKey (sampleRequest (Some ''intruder'') p)) = ''intruder''"
  "toEffectiveKey (readApiKey (sampleRequest (Some ''demo'') p)) = ''demo''"
  by (simp_all add: toEffectiveKey_def readApiKey_def sampleRequest_def js_trim_def isWhiteSpace_def)

theorem namespace_gate_witness:
  "allowlist envOpen = [] \<and> isApiKeyAllowed ''anything'' envOpen \<and>
   allowlist envDemo \<noteq> [] \<and> ''other'' \<in> set (allowlist envDemo) \<and>
   isApiKeyAllowed ''other'' envDemo \<and>
   \<not> isApiKeyAllowed (toEffectiveKey (readApiKey (sampleRequest (Some ''intruder'') None))) envDemo \<and>
   handleWebhook samplePlatform envDemo (sampleRequest (Some ''intruder'') None)
       ''2024-01-02T03:04:05.678Z'' ''0.4fzyo82mvyr'' ''2024-01-02T03:04:05.679Z''
     = (errorResponse 403 ''Forbidden api_key'', []) \<and>
   kv_run (snd (handleWebhook samplePlatform envDemo (sampleRequest (Some ''intruder'') None)
       ''2024-01-02T03:04:05.678Z'' ''0.4fzyo82mvyr'' ''2024-01-02T03:04:05.679Z'')) Map.empty
     = Map.empty"
proof -
  have d: "allowlist envDemo \<noteq> []" "''other'' \<in> set (allowlist envDemo)"
    "''intruder'' \<notin> set (allowlist envDemo)"
    by (simp_all add: allowlist_envDemo)
  note g1 = namespace_gate [of envOpen "''anything''" "sampleRequest (Some ''intruder'') None"
      samplePlatform "''2024-01-02T03:04:05.678Z''" "''0.4fzyo82mvyr''"
      "''2024-01-02T03:04:05.679Z''" Map.empty]
  note g2 = namespace_gate [of envDemo "''other''" "sampleRequest (Some ''intruder'') None"
      samplePlatform "''2024-01-02T03:04:05.678Z''" "''0.4fzyo82mvyr''"
      "''2024-01-02T03:04:05.679Z''" Map.empty]
  note g3 = namespace_gate [of envDemo "''intruder''" "sampleRequest (Some ''intruder'') None"
      samplePlatform "''2024-01-02T03:04:05.678Z''" "''0.4fzyo82mvyr''"
      "''2024-01-02T03:04:05.679Z''" Map.empty]
  have o: "isApiKeyAllowed ''anything'' envOpen" using g1 allowlist_envOpen by blast
  have a: "isApiKeyAllowed ''other'' envDemo" using g2 d by blast
  have "\<not> isApiKeyAllowed ''intruder'' envDemo" using g3 d by blast
  then have r: "\<not> isApiKeyAllowed
      (toEffectiveKey (readApiKey (sampleRequest (Some ''intruder'') None))) envDemo"
    by (simp add: key_of_sampleRequest)
  with g3 have w: "handleWebhook samplePlatform envDemo (sampleRequest (Some ''intruder'') None)
       ''2024-01-02T03:04:05.678Z'' ''0.4fzyo82mvyr'' ''2024-01-02T03:04:05.679Z''
     = (errorResponse 403 ''Forbidden api_key'', []) \<and>
   kv_run (snd (handleWebhook samplePlatform envDemo (sampleRequest (Some ''intruder'') None)
       ''2024-01-02T03:04:05.678Z'' ''0.4fzyo82mvyr'' ''2024-01-02T03:04:05.679Z'')) Map.empty
     = Map.empty"
    by blast
  from o a r d w allowlist_envOpen show ?thesis by blast
qed

section \<open>Payload validator: the properties\<close>

lemma flatLoop_iff:
  "flatLoop (JObj kvs) ks \<longleftrightarrow> (\<forall>k \<in> set ks. \<not> isObject (map_of kvs k))"
  by (induction ks) (auto simp: Let_def)

lemma isObject_Some: "isObject (Some v) \<longleftrightarrow> \<not> isScalar v"
  by (cases v) auto

lemma isFlatKeyValueObject_iff:
  "isFlatKeyValueObject (JObj kvs) \<longleftrightarrow> (\<forall>k v. map_of kvs k = Some v \<longrightarrow> isScalar v)"
proof
  assume flat: "isFlatKeyValueObject (JObj kvs)"
  show "\<forall>k v. map_of kvs k = Some v \<longrightarrow> isScalar v"
  proof (intro allI impI)
    fix k v
    assume kv: "map_of kvs k = Some v"
    then have "k \<in> set (map fst kvs)" by (auto dest: map_of_SomeD intro: rev_image_eqI)
    moreover from flat have "\<forall>k \<in> set (map fst kvs). \<not> isObject (map_of kvs k)"
      by (simp only: isFlatKeyValueObject_def objectKeys.simps flatLoop_iff)
    ultimately have "\<not> isObject (map_of kvs k)" by blast
    with kv show "isScalar v" by (simp add: isObject_Some)
  qed
next
  assume sc: "\<forall>k v. map_of kvs k = Some v \<longrightarrow> isScalar v"
  have "\<not> isObject (map_of kvs k)" for k
  proof (cases "map_of kvs k")
    case None
    then show ?thesis by simp
  next
    case (Some v)
    with sc show ?thesis by (simp add: isObject_Some)
  qed
  then show "isFlatKeyValueObject (JObj kvs)"
    by (simp add: isFlatKeyValueObject_def flatLoop_iff)
qed

lemma isFlatKeyValueObject_distinct:
  "distinct (map fst kvs) \<Longrightarrow>
     isFlatKeyValueObject (JObj kvs) \<longleftrightarrow> list_all (\<lambda>(k, v). isScalar v) kvs"
  by (auto simp: isFlatKeyValueObject_iff list_all_iff)

lemma plain_object_test:
  "(\<not> typeofObject b \<or> b = JNull \<or> isArray b) \<longleftrightarrow> (\<forall>kvs. b \<noteq> JObj kvs)"
  by (cases b) auto

text \<open>
  C1. A write whose namespace passes the gate and whose body parses to \<open>b\<close> is accepted
  (status 200, with one put under the storage key of the new event) if and only if \<open>b\<close>
  is an object, neither an array nor \<^verbatim>\<open>null\<close>, whose every property value is a scalar. A
  value that is not such an object is rejected with the message of \<open>msgNotObject\<close>; an
  object with a property value that is an object or an array is rejected with the message
  of \<open>msgNestedValue\<close>. Every write that is not answered with 200 issues no put, and the
  store stays as it was.
\<close>

theorem payload_validator:
  "(status (fst (handleWebhook pf e request stampId rnd stampReceived)) \<noteq> 200 \<longrightarrow>
      snd (handleWebhook pf e request stampId rnd stampReceived) = [] \<and>
      kv_run (snd (handleWebhook pf e request stampId rnd stampReceived)) store = store) \<and>
   (isApiKeyAllowed (toEffectiveKey (readApiKey request)) e \<and> req_json request = Some b \<longrightarrow>
      (status (fst (handleWebhook pf e request stampId rnd stampReceived)) = 200 \<longleftrightarrow>
         (\<exists>kvs. b = JObj kvs \<and> (\<forall>k v. map_of kvs k = Some v \<longrightarrow> isScalar v))) \<and>
      ((\<forall>kvs. b \<noteq> JObj kvs) \<longrightarrow>
         handleWebhook pf e request stampId rnd stampReceived
           = (errorResponse 400 msgNotObject, [])) \<and>
      (\<forall>kvs. b = JObj kvs \<and> (\<exists>k v. map_of kvs k = Some v \<and> \<not> isScalar v) \<longrightarrow>
         handleWebhook pf e request stampId rnd stampReceived
           = (errorResponse 400 msgNestedValue, [])) \<and>
      (status (fst (handleWebhook pf e request stampId rnd stampReceived)) = 200 \<longrightarrow>
         (\<exists>v ttl meta.
            snd (handleWebhook pf e request stampId rnd stampReceived)
              = [Put (makeStorageKey (toEffectiveKey (readApiKey request))
                        (generateEventId stampId rnd)) v ttl meta])))"
proof -
  let ?out = "handleWebhook pf e request stampId rnd stampReceived"
  have rej: "status (fst ?out) \<noteq> 200 \<longrightarrow> snd ?out = [] \<and> kv_run (snd ?out) store = store"
    by (auto simp: handleWebhook_def Let_def errorResponse_def kv_run_def split: option.splits)
  have acc: "isApiKeyAllowed (toEffectiveKey (readApiKey request)) e \<and> req_json request = Some b \<longrightarrow>
      (status (fst ?out) = 200 \<longleftrightarrow>
         (\<exists>kvs. b = JObj kvs \<and> (\<forall>k v. map_of kvs k = Some v \<longrightarrow> isScalar v))) \<and>
      ((\<forall>kvs. b \<noteq> JObj kvs) \<longrightarrow> ?out = (errorResponse 400 msgNotObject, [])) \<and>
      (\<forall>kvs. b = JObj kvs \<and> (\<exists>k v. map_of kvs k = Some v \<and> \<not> isScalar v) \<longrightarrow>
         ?out = (errorResponse 400 msgNestedValue, [])) \<and>
      (status (fst ?out) = 200 \<longrightarrow>
         (\<exists>v ttl meta.
            snd ?out = [Put (makeStorageKey (toEffectiveKey (readApiKey request))
                        (generateEventId stampId rnd)) v ttl meta]))"
  proof
    assume h: "isApiKeyAllowed (toEffectiveKey (readApiKey request)) e \<and> req_json request = Some b"
    show "(status (fst ?out) = 200 \<longleftrightarrow>
         (\<exists>kvs. b = JObj kvs \<and> (\<forall>k v. map_of kvs k = Some v \<longrightarrow> isScalar v))) \<and>
      ((\<forall>kvs. b \<noteq> JObj kvs) \<longrightarrow> ?out = (errorResponse 400 msgNotObject, [])) \<and>
      (\<forall>kvs. b = JObj kvs \<and> (\<exists>k v. map_of kvs k = Some v \<and> \<not> isScalar v) \<longrightarrow>
         ?out = (errorResponse 400 msgNestedValue, [])) \<and>
      (status (fst ?out) = 200 \<longrightarrow>
         (\<exists>v ttl meta.
            snd ?out = [Put (makeStorageKey (toEffectiveKey (readApiKey request))
                        (generateEventId stampId rnd)) v ttl meta]))"
    proof (cases "\<forall>kvs. b \<noteq> JObj kvs")
      case True
      then have "\<not> typeofObject b \<or> b = JNull \<or> isArray b"
        using plain_object_test [of b] by blast
      with h have "?out = (errorResponse 400 msgNotObject, [])"
        by (simp add: handleWebhook_def Let_def)
      with True show ?thesis by (simp add: errorResponse_def)
    next
      case False
      then obtain kvs where b: "b = JObj kvs" by blast
      show ?thesis
      proof (cases "isFlatKeyValueObject (JObj kvs)")
        case True
        with h b have "status (fst ?out) = 200 \<and>
          (\<exists>v ttl meta. snd ?out = [Put (makeStorageKey (toEffectiveKey (readApiKey request))
                        (generateEventId stampId rnd)) v ttl meta])"
          by (simp add: handleWebhook_def Let_def)
        moreover have "\<forall>k v. map_of kvs k = Some v \<longrightarrow> isScalar v"
          using True isFlatKeyValueObject_iff [of kvs] by blast
        ultimately show ?thesis using b by blast
      next
        case False
        with h b have o: "?out = (errorResponse 400 msgNestedValue, [])"
          by (simp add: handleWebhook_def Let_def)
        then have "status (fst ?out) \<noteq> 200" by (simp add: errorResponse_def)
        moreover have "\<not> (\<forall>k v. map_of kvs k = Some v \<longrightarrow> isScalar v)"
          using False isFlatKeyValueObject_iff [of kvs] by blast
        ultimately show ?thesis using b o by blast
      qed
    qed
  qed
  from rej acc show ?thesis by blast
qed


lemma gate_sampleRequest:
  "isApiKeyAllowed (toEffectiveKey (readApiKey (sampleRequest (Some ''demo'') p))) envDemo"
  by (simp add: key_of_sampleRequest isApiKeyAllowed_def allowlist_envDemo)

theorem payload_validator_witness:
  "isApiKeyAllowed (toEffectiveKey (readApiKey (sampleRequest (Some ''demo'') None))) envDemo \<and>
   status (fst (handleWebhook samplePlatform envDemo
       (sampleRequest (Some ''demo'')
          (Some (JObj [(''orderId'', JStr ''123''), (''paid'', JBool True)])))
       ''2024-01-02T03:04:05.678Z'' ''0.4fzyo82mvyr'' ''2024-01-02T03:04:05.679Z'')) = 200 \<and>
   (\<exists>v ttl meta. snd (handleWebhook samplePlatform envDemo
       (sampleRequest (Some ''demo'')
          (Some (JObj [(''orderId'', JStr ''123''), (''paid'', JBool True)])))
       ''2024-01-02T03:04:05.678Z'' ''0.4fzyo82mvyr'' ''2024-01-02T03:04:05.679Z'')
     = [Put ''demo:2024-01-02T03-04-05-678Z_4fzyo82m'' v ttl meta]) \<and>
   handleWebhook samplePlatform envDemo (sampleRequest (Some ''demo'') (Some (JArr [])))
       ''2024-01-02T03:04:05.678Z'' ''0.4fzyo82mvyr'' ''2024-01-02T03:04:05.679Z''
     = (errorResponse 400 msgNotObject, []) \<and>
   handleWebhook samplePlatform envDemo
       (sampleRequest (Some ''demo'') (Some (JObj [(''a'', JNum 1), (''b'', JArr [])])))
       ''2024-01-02T03:04:05.678Z'' ''0.4fzyo82mvyr'' ''2024-01-02T03:04:05.679Z''
     = (errorResponse 400 msgNestedValue, []) \<and>
   kv_run (snd (handleWebhook samplePlatform envDemo
       (sampleRequest (Some ''demo'') (Some (JObj [(''a'', JNum 1), (''b'', JArr [])])))
       ''2024-01-02T03:04:05.678Z'' ''0.4fzyo82mvyr'' ''2024-01-02T03:04:05.679Z''))
     [''demo:x'' \<mapsto> (JNull, None, JNull)]
     = [''demo:x'' \<mapsto> (JNull, None, JNull)]"
proof -
  let ?ok = "JObj [(''orderId'', JStr ''123''), (''paid'', JBool True)]"
  let ?nested = "JObj [(''a'', JNum 1), (''b'', JArr [])]"
  let ?st = "[''demo:x'' \<mapsto> (JNull, None :: int option, JNull)]"
  have j: "req_json (sampleRequest k p) = p" for k p by (simp add: sampleRequest_def)
  have flat: "\<exists>kvs. ?ok = JObj kvs \<and> (\<forall>k v. map_of kvs k = Some v \<longrightarrow> isScalar v)"
    by (simp split: if_splits)
  have nest: "\<exists>k v. map_of [(''a'', JNum 1), (''b'', JArr [])] k = Some v \<and> \<not> isScalar v"
    by (rule exI [of _ "''b''"]) simp
  have arr: "\<forall>kvs. JArr [] \<noteq> JObj kvs" by simp
  note t1 = payload_validator [of samplePlatform envDemo "sampleRequest (Some ''demo'') (Some ?ok)"
      "''2024-01-02T03:04:05.678Z''" "''0.4fzyo82mvyr''" "''2024-01-02T03:04:05.679Z''" ?st ?ok]
  note t2 = payload_validator [of samplePlatform envDemo
      "sampleRequest (Some ''demo'') (Some (JArr []))"
      "''2024-01-02T03:04:05.678Z''" "''0.4fzyo82mvyr''" "''2024-01-02T03:04:05.679Z''" ?st "JArr []"]
  note t3 = payload_validator [of samplePlatform envDemo
      "sampleRequest (Some ''demo'') (Some ?nested)"
      "''2024-01-02T03:04:05.678Z''" "''0.4fzyo82mvyr''" "''2024-01-02T03:04:05.679Z''" ?st ?nested]
  have a1: "status (fst (handleWebhook samplePlatform envDemo
       (sampleRequest (Some ''demo'') (Some ?ok))
       ''2024-01-02T03:04:05.678Z'' ''0.4fzyo82mvyr'' ''2024-01-02T03:04:05.679Z'')) = 200"
    using t1 gate_sampleRequest j flat by blast
  with t1 gate_sampleRequest j have a2: "\<exists>v ttl meta. snd (handleWebhook samplePlatform envDemo
       (sampleRequest (Some ''demo'') (Some ?ok))
       ''2024-01-02T03:04:05.678Z'' ''0.4fzyo82mvyr'' ''2024-01-02T03:04:05.679Z'')
     = [Put (makeStorageKey (toEffectiveKey (readApiKey (sampleRequest (Some ''demo'') (Some ?ok))))
               (generateEventId ''2024-01-02T03:04:05.678Z'' ''0.4fzyo82mvyr'')) v ttl meta]"
    by blast
  have k: "makeStorageKey (toEffectiveKey (readApiKey (sampleRequest (Some ''demo'') (Some ?ok))))
               (generateEventId ''2024-01-02T03:04:05.678Z'' ''0.4fzyo82mvyr'')
           = ''demo:2024-01-02T03-04-05-678Z_4fzyo82m''"
    by (simp add: key_of_sampleRequest makeStorageKey_def generateEventId_def replaceColonDot_def
        js_slice_def)
  have a3: "handleWebhook samplePlatform envDemo (sampleRequest (Some ''demo'') (Some (JArr [])))
       ''2024-01-02T03:04:05.678Z'' ''0.4fzyo82mvyr'' ''2024-01-02T03:04:05.679Z''
     = (errorResponse 400 msgNotObject, [])"
    using t2 gate_sampleRequest j arr by blast
  have a4: "handleWebhook samplePlatform envDemo (sampleRequest (Some ''demo'') (Some ?nested))
       ''2024-01-02T03:04:05.678Z'' ''0.4fzyo82mvyr'' ''2024-01-02T03:04:05.679Z''
     = (errorResponse 400 msgNestedValue, [])"
    using t3 gate_sampleRequest j nest by blast
  then have "status (fst (handleWebhook samplePlatform envDemo
       (sampleRequest (Some ''demo'') (Some ?nested))
       ''2024-01-02T03:04:05.678Z'' ''0.4fzyo82mvyr'' ''2024-01-02T03:04:05.679Z'')) \<noteq> 200"
    by (simp add: errorResponse_def)
  with t3 have a5: "kv_run (snd (handleWebhook samplePlatform envDemo
       (sampleRequest (Some ''demo'') (Some ?nested))
       ''2024-01-02T03:04:05.678Z'' ''0.4fzyo82mvyr'' ''2024-01-02T03:04:05.679Z'')) ?st = ?st"
    by blast
  from a1 a2 a3 a4 a5 gate_sampleRequest [of None] show ?thesis
    unfolding k by blast
qed

section \<open>Listing: the properties\<close>

lemma requestLimit_cases:
  "requestLimit pf limitParam =
     (case NumberOf pf limitParam of
        NaN \<Rightarrow> Fin 50
      | NegInf \<Rightarrow> Fin 1
      | PosInf \<Rightarrow> Fin 200
      | Fin x \<Rightarrow> if x = 0 then Fin 50 else Fin (min (max x 1) 200))"
  by (cases "NumberOf pf limitParam") (simp_all add: requestLimit_def js_or_def)

text \<open>
  C3, as the code has it. The limit of a listing is 50 when the parameter \<^verbatim>\<open>limit\<close> is
  absent, when \<^verbatim>\<open>Number\<close> makes \<^verbatim>\<open>NaN\<close> of it, and also when \<^verbatim>\<open>Number\<close> makes zero of it;
  for every other number it is that number clamped into \<open>[1, 200]\<close>, with 200 for
  \<^verbatim>\<open>Infinity\<close> and 1 for \<^verbatim>\<open>-Infinity\<close>. So the limit is always a finite number in
  \<open>[1, 200]\<close>, and the limit passed to the store is that same number: it is at least 1 and
  at most 1000.
\<close>

theorem request_limit:
  "(limitParam = None \<or> NumberOf pf limitParam = NaN \<or> NumberOf pf limitParam = Fin 0 \<longrightarrow>
      requestLimit pf limitParam = Fin 50) \<and>
   (\<forall>x. NumberOf pf limitParam = Fin x \<and> x \<noteq> 0 \<longrightarrow>
      requestLimit pf limitParam = Fin (min (max x 1) 200)) \<and>
   (NumberOf pf limitParam = PosInf \<longrightarrow> requestLimit pf limitParam = Fin 200) \<and>
   (NumberOf pf limitParam = NegInf \<longrightarrow> requestLimit pf limitParam = Fin 1) \<and>
   (\<exists>y. requestLimit pf limitParam = Fin y \<and> 1 \<le> y \<and> y \<le> 200 \<and>
        storeLimit (requestLimit pf limitParam) = Fin y) \<and>
   js_le (Fin 1) (storeLimit (requestLimit pf limitParam)) \<and>
   js_le (storeLimit (requestLimit pf limitParam)) (Fin 1000)"
proof -
  have n: "limitParam = None \<Longrightarrow> NumberOf pf limitParam = Fin 0"
    by (simp add: NumberOf_def)
  show ?thesis
  proof (cases "NumberOf pf limitParam")
    case NaN
    with n show ?thesis by (auto simp: requestLimit_cases storeLimit_def)
  next
    case NegInf
    with n show ?thesis by (auto simp: requestLimit_cases storeLimit_def)
  next
    case (Fin x)
    with n show ?thesis by (auto simp: requestLimit_cases storeLimit_def)
  next
    case PosInf
    with n show ?thesis by (auto simp: requestLimit_cases storeLimit_def)
  qed
qed

theorem request_limit_witness:
  "requestLimit samplePlatform None = Fin 50 \<and>
   NumberOf samplePlatform (Some ''abc'') = NaN \<and> requestLimit samplePlatform (Some ''abc'') = Fin 50 \<and>
   NumberOf samplePlatform (Some ''0'') = Fin 0 \<and> requestLimit samplePlatform (Some ''0'') = Fin 50 \<and>
   NumberOf samplePlatform (Some ''30'') = Fin 30 \<and> requestLimit samplePlatform (Some ''30'') = Fin 30 \<and>
   NumberOf samplePlatform (Some ''500'') = Fin 500 \<and> requestLimit samplePlatform (Some ''500'') = Fin 200"
proof -
  have a: "NumberOf samplePlatform (Some ''abc'') = NaN" "NumberOf samplePlatform (Some ''0'') = Fin 0"
    "NumberOf samplePlatform (Some ''30'') = Fin 30" "NumberOf samplePlatform (Some ''500'') = Fin 500"
    by (simp_all add: NumberOf_def samplePlatform_def)
  have "requestLimit samplePlatform None = Fin 50"
    using request_limit [of None samplePlatform] by blast
  moreover have "requestLimit samplePlatform (Some ''abc'') = Fin 50"
    using request_limit [of "Some ''abc''" samplePlatform] a by blast
  moreover have "requestLimit samplePlatform (Some ''0'') = Fin 50"
    using request_limit [of "Some ''0''" samplePlatform] a by blast
  moreover have "requestLimit samplePlatform (Some ''30'') = Fin (min (max 30 1) 200)"
    using request_limit [of "Some ''30''" samplePlatform] a by simp
  moreover have "requestLimit samplePlatform (Some ''500'') = Fin (min (max 500 1) 200)"
    using request_limit [of "Some ''500''" samplePlatform] a by simp
  ultimately show ?thesis using a by simp
qed

text \<open>
  C3, as it is stated, fails for the parameter \<^verbatim>\<open>limit=0\<close>: it is present and \<^verbatim>\<open>Number\<close>
  parses it, to zero; zero clamped into \<open>[1, 200]\<close> is 1, and the limit is 50.
\<close>

theorem request_limit_counterexample:
  "NumberOf samplePlatform (Some ''0'') = Fin 0 \<and>
   requestLimit samplePlatform (Some ''0'') = Fin 50 \<and>
   Math_min (Math_max (Fin 0) (Fin 1)) (Fin 200) = Fin 1"
  by (simp add: NumberOf_def samplePlatform_def requestLimit_def js_or_def)




text \<open>
  C7. The events of a page are the values read for the listed keys, in the order of the
  listing, without the keys whose value is \<^verbatim>\<open>null\<close> when it is read. The cursor and
  \<open>listComplete\<close> of the page are those of the key listing: they are the same for any two
  stores that list alike, whatever their reads return.
\<close>

theorem list_drops_vanished:
  "ep_events (listEventsForApiKey kv apiKey limit cursor)
     = map (kv_get kv)
         (filter (\<lambda>k. kv_get kv k \<noteq> JNull) (lr_keys (listPage kv apiKey limit cursor))) \<and>
   ep_cursor (listEventsForApiKey kv apiKey limit cursor)
     = (if lr_list_complete (listPage kv apiKey limit cursor) = Some False
        then lr_cursor (listPage kv apiKey limit cursor) else None) \<and>
   ep_listComplete (listEventsForApiKey kv apiKey limit cursor)
     = (lr_list_complete (listPage kv apiKey limit cursor) \<noteq> Some False) \<and>
   (kv_list kv' = kv_list kv \<longrightarrow>
      ep_cursor (listEventsForApiKey kv' apiKey limit cursor)
        = ep_cursor (listEventsForApiKey kv apiKey limit cursor) \<and>
      ep_listComplete (listEventsForApiKey kv' apiKey limit cursor)
        = ep_listComplete (listEventsForApiKey kv apiKey limit cursor))"
proof -
  have a: "ep_events (listEventsForApiKey kv apiKey limit cursor)
     = map (kv_get kv)
         (filter (\<lambda>k. kv_get kv k \<noteq> JNull) (lr_keys (listPage kv apiKey limit cursor)))"
    by (simp add: listEventsForApiKey_def Let_def filter_map comp_def)
  have b: "ep_listComplete (listEventsForApiKey kv apiKey limit cursor)
     = (lr_list_complete (listPage kv apiKey limit cursor) \<noteq> Some False)"
    by (auto simp: listEventsForApiKey_def Let_def split: option.splits)
  have c: "kv_list kv' = kv_list kv \<longrightarrow>
      ep_cursor (listEventsForApiKey kv' apiKey limit cursor)
        = ep_cursor (listEventsForApiKey kv apiKey limit cursor) \<and>
      ep_listComplete (listEventsForApiKey kv' apiKey limit cursor)
        = ep_listComplete (listEventsForApiKey kv apiKey limit cursor)"
    by (simp add: listEventsForApiKey_def Let_def listPage_def)
  from a b c show ?thesis by (simp add: listEventsForApiKey_def Let_def)
qed

theorem list_drops_vanished_witness:
  "lr_keys (listPage sampleStore ''demo'' (Fin 2) None) = [''demo:e1'', ''demo:e2''] \<and>
   kv_get sampleStore ''demo:e2'' = JNull \<and>
   ep_events (listEventsForApiKey sampleStore ''demo'' (Fin 2) None) = [JObj [(''id'', JStr ''e1'')]] \<and>
   kv_list (sampleStore\<lparr>kv_get := \<lambda>k. JStr k\<rparr>) = kv_list sampleStore \<and>
   ep_events (listEventsForApiKey (sampleStore\<lparr>kv_get := \<lambda>k. JStr k\<rparr>) ''demo'' (Fin 2) None)
     = [JStr ''demo:e1'', JStr ''demo:e2''] \<and>
   ep_cursor (listEventsForApiKey (sampleStore\<lparr>kv_get := \<lambda>k. JStr k\<rparr>) ''demo'' (Fin 2) None)
     = ep_cursor (listEventsForApiKey sampleStore ''demo'' (Fin 2) None) \<and>
   ep_listComplete (listEventsForApiKey (sampleStore\<lparr>kv_get := \<lambda>k. JStr k\<rparr>) ''demo'' (Fin 2) None)
     = ep_listComplete (listEventsForApiKey sampleStore ''demo'' (Fin 2) None)"
proof -
  let ?kv' = "sampleStore\<lparr>kv_get := \<lambda>k. JStr k\<rparr>"
  have p: "listPage sampleStore ''demo'' (Fin 2) None
      = \<lparr>lr_keys = [''demo:e1'', ''demo:e2''], lr_list_complete = Some False, lr_cursor = Some ''c1''\<rparr>"
    by (simp add: listPage_def sampleStore_def)
  have p': "listPage ?kv' ''demo'' (Fin 2) None
      = \<lparr>lr_keys = [''demo:e1'', ''demo:e2''], lr_list_complete = Some False, lr_cursor = Some ''c1''\<rparr>"
    by (simp add: listPage_def sampleStore_def)
  have g: "kv_get sampleStore ''demo:e2'' = JNull"
    "kv_get sampleStore ''demo:e1'' = JObj [(''id'', JStr ''e1'')]"
    by (simp_all add: sampleStore_def)
  have l: "kv_list ?kv' = kv_list sampleStore" by simp
  note t = list_drops_vanished [of sampleStore "''demo''" "Fin 2" None ?kv']
  note t' = list_drops_vanished [of ?kv' "''demo''" "Fin 2" None ?kv']
  have e: "ep_events (listEventsForApiKey sampleStore ''demo'' (Fin 2) None) = [JObj [(''id'', JStr ''e1'')]]"
    using t by (simp add: p g)
  have e': "ep_events (listEventsForApiKey ?kv' ''demo'' (Fin 2) None) = [JStr ''demo:e1'', JStr ''demo:e2'']"
    using t' by (simp add: p')
  from t l e e' g p show ?thesis by simp
qed

section \<open>Batch delete: the properties\<close>












end
